theory Spec2Isabelle
  imports Complex_Main
begin

section \<open>Strings\<close>

text \<open>
  A Python \<open>str\<close> is a sequence of code points. The model uses \<^typ>\<open>string\<close> and reads a
  \<^typ>\<open>char\<close> as the code point of the same number, so it covers the strings whose code
  points are below 256. On that range the library calls used by the source are:
  \<^item> \<open>str.strip()\<close> removes leading and trailing white space (\<open>str.isspace\<close>);
  \<^item> \<open>str.strip(chars)\<close> removes leading and trailing characters that occur in \<open>chars\<close>;
  \<^item> \<open>str.lower()\<close> maps each upper-case letter to its lower-case letter and keeps the
    length of the string;
  \<^item> the regular expression class \<open>\d\<close> is the decimal digits, \<open>\D\<close> its complement, and
    \<open>\w\<close> is the alphanumeric characters and the underscore.
\<close>

definition code :: "char \<Rightarrow> nat" where
  "code c = of_char c"

definition is_space :: "char \<Rightarrow> bool" where
  "is_space c =
     ((9 \<le> code c \<and> code c \<le> 13) \<or> (28 \<le> code c \<and> code c \<le> 32)
      \<or> code c = 133 \<or> code c = 160)"

definition is_decimal :: "char \<Rightarrow> bool" where
  "is_decimal c = (48 \<le> code c \<and> code c \<le> 57)"

definition is_upper :: "char \<Rightarrow> bool" where
  "is_upper c =
     ((65 \<le> code c \<and> code c \<le> 90) \<or> (192 \<le> code c \<and> code c \<le> 214)
      \<or> (216 \<le> code c \<and> code c \<le> 222))"

definition is_word :: "char \<Rightarrow> bool" where
  "is_word c =
     (is_decimal c \<or> (65 \<le> code c \<and> code c \<le> 90) \<or> code c = 95
      \<or> (97 \<le> code c \<and> code c \<le> 122)
      \<or> code c \<in> {170, 178, 179, 181, 185, 186, 188, 189, 190}
      \<or> (192 \<le> code c \<and> code c \<le> 214) \<or> (216 \<le> code c \<and> code c \<le> 246)
      \<or> (248 \<le> code c \<and> code c \<le> 255))"

definition lower_char :: "char \<Rightarrow> char" where
  "lower_char c = (if is_upper c then char_of (code c + 32) else c)"

definition lower :: "string \<Rightarrow> string" where
  "lower s = map lower_char s"

definition strip_by :: "(char \<Rightarrow> bool) \<Rightarrow> string \<Rightarrow> string" where
  "strip_by p s = rev (dropWhile p (rev (dropWhile p s)))"

definition strip :: "string \<Rightarrow> string" where
  "strip s = strip_by is_space s"

definition strip_chars :: "string \<Rightarrow> string \<Rightarrow> string" where
  "strip_chars chars s = strip_by (\<lambda>c. c \<in> set chars) s"

definition startswith :: "string \<Rightarrow> string \<Rightarrow> bool" where
  "startswith s p = (take (length p) s = p)"

text \<open>\<open>re.sub(r"\D", "", s)\<close>: the decimal digits of \<open>s\<close>, in order.\<close>

definition digits_of :: "string \<Rightarrow> string" where
  "digits_of s = filter is_decimal s"

section \<open>parser.py: the phone splitter\<close>

definition DIAL_CODE_TO_COUNTRY :: "(string \<times> string) list" where
  "DIAL_CODE_TO_COUNTRY = [(''1'', ''US''), (''44'', ''UK''), (''91'', ''India'')]"

text \<open>
  The loop \<open>for length in (3, 2, 1)\<close> of \<open>parse_phone_number\<close>: the pair is
  \<open>(country, subscriber_number)\<close>, and a match leaves the loop (\<open>break\<close>).
\<close>

fun dial_loop :: "nat list \<Rightarrow> string \<Rightarrow> string \<times> string \<Rightarrow> string \<times> string" where
  "dial_loop [] digits st = st"
| "dial_loop (len # rest) digits st =
     (if len \<le> length digits then
        (case map_of DIAL_CODE_TO_COUNTRY (take len digits) of
           Some country \<Rightarrow> (country, drop len digits)
         | None \<Rightarrow> dial_loop rest digits st)
      else dial_loop rest digits st)"

definition parse_phone_number :: "string \<Rightarrow> string \<times> string" where
  "parse_phone_number raw =
     (let s = strip raw; digits = digits_of s in
      if digits = [] then ('''', '''')
      else if startswith s ''+'' then dial_loop [3, 2, 1] digits ('''', digits)
      else ('''', digits))"

text \<open>
  The phone splitter in the words of the specification: the digits of the raw string; the
  first of the lengths 3, 2, 1 at which the digit string has a prefix that is a key of the
  table \<open>"1" \<rightarrow> US, "44" \<rightarrow> UK, "91" \<rightarrow> India\<close>.
\<close>

definition spec_country :: "string \<Rightarrow> string" where
  "spec_country dial =
     (if dial = ''1'' then ''US'' else if dial = ''44'' then ''UK''
      else if dial = ''91'' then ''India'' else '''')"

definition spec_is_dial :: "string \<Rightarrow> nat \<Rightarrow> bool" where
  "spec_is_dial digits n =
     (n \<le> length digits \<and> take n digits \<in> {''1'', ''44'', ''91''})"

definition ParsePhoneNumber :: "string \<Rightarrow> string \<times> string" where
  "ParsePhoneNumber raw =
     (let digits = filter is_decimal raw in
      if digits = [] then ('''', '''')
      else if startswith (strip raw) ''+'' then
        (case find (spec_is_dial digits) [3, 2, 1] of
           Some n \<Rightarrow> (spec_country (take n digits), drop n digits)
         | None \<Rightarrow> ('''', digits))
      else ('''', digits))"

section \<open>Regular expressions with word boundaries\<close>

text \<open>
  \<open>\b\<close> at position \<open>i\<close> of \<open>s\<close>: the string is not empty and exactly one of the characters
  before and at \<open>i\<close> is a word character (a missing neighbour counts as none).
\<close>

definition at_boundary :: "string \<Rightarrow> nat \<Rightarrow> bool" where
  "at_boundary s i =
     (s \<noteq> [] \<and>
      ((0 < i \<and> is_word (s ! (i - 1))) \<noteq> (i < length s \<and> is_word (s ! i))))"

text \<open>
  \<open>re.escape(suf)\<close> matches the text \<open>suf\<close> itself, so \<open>r"\b" + re.escape(suf) + r"\b"\<close>
  matches at \<open>i\<close> when \<open>suf\<close> occurs there between two word boundaries.
\<close>

definition word_match_at :: "string \<Rightarrow> string \<Rightarrow> nat \<Rightarrow> bool" where
  "word_match_at suf s i =
     (at_boundary s i \<and> take (length suf) (drop i s) = suf
      \<and> at_boundary s (i + length suf))"

text \<open>\<open>re.search\<close> returns the leftmost match; the result is \<open>m.start()\<close>.\<close>

definition re_search_word :: "string \<Rightarrow> string \<Rightarrow> nat option" where
  "re_search_word suf s = find (word_match_at suf s) [0..<Suc (length s)]"

text \<open>
  The pattern of \<open>parse_company_name\<close> ends in \<open>\.?\<close>, which takes a full stop after the
  match when there is one and matches the empty string otherwise: the result is
  \<open>(m.start(), m.end())\<close>.
\<close>

definition re_search_word_dot :: "string \<Rightarrow> string \<Rightarrow> (nat \<times> nat) option" where
  "re_search_word_dot suf s =
     (case find (word_match_at suf s) [0..<Suc (length s)] of
        None \<Rightarrow> None
      | Some i \<Rightarrow>
          (let e = i + length suf in
           Some (i, if e < length s \<and> s ! e = CHR ''.'' then Suc e else e)))"

text \<open>\<open>k in low\<close> on strings: \<open>k\<close> occurs in \<open>low\<close> as a substring.\<close>

fun contains :: "string \<Rightarrow> string \<Rightarrow> bool" where
  "contains [] k = (k = [])"
| "contains (c # cs) k = (startswith (c # cs) k \<or> contains cs k)"

section \<open>parser.py: the company-name splitter\<close>

fun suffix_loop :: "string list \<Rightarrow> string \<Rightarrow> string \<Rightarrow> string \<times> string" where
  "suffix_loop [] s low = (s, '''')"
| "suffix_loop (suf # rest) s low =
     (case re_search_word_dot suf low of
        Some (start, e) \<Rightarrow>
          (strip_chars '' ,.-'' (take start s), strip_chars '' ,.-'' (drop start s))
      | None \<Rightarrow> suffix_loop rest s low)"

definition parse_company_name :: "string \<Rightarrow> string list \<Rightarrow> string \<times> string" where
  "parse_company_name raw suffixes =
     (let s = strip raw in
      if s = [] then ('''', '''') else suffix_loop suffixes s (lower s))"

section \<open>predict.py: predicates and scorers\<close>

text \<open>
  \<open>is_parsable_date\<close> asks the library \<open>dateutil\<close> whether the stripped string parses; the
  library is not part of the repository, so its answer is the parameter \<open>date_parse\<close>
  (true when \<open>date_parser.parse(s, dayfirst=True, fuzzy=False)\<close> returns without raising).
\<close>

definition is_parsable_date :: "(string \<Rightarrow> bool) \<Rightarrow> string \<Rightarrow> bool" where
  "is_parsable_date date_parse s0 =
     (let s = strip s0 in if s = [] then False else date_parse s)"

definition looks_like_phone :: "string \<Rightarrow> bool" where
  "looks_like_phone s0 =
     (let s = strip s0 in
      if s = [] then False
      else (let digits = digits_of s in 7 \<le> length digits \<and> length digits \<le> 15))"

definition keywords_list :: "string list" where
  "keywords_list =
     [''ltd'', ''limited'', ''inc'', ''corp'', ''company'', ''co.'', ''gmbh'', ''bank'', ''plc'']"

definition looks_like_company :: "string \<Rightarrow> string list \<Rightarrow> bool" where
  "looks_like_company s0 legal_suffixes =
     (let s = strip s0 in
      if s = [] then False
      else (let low = lower s in
            if list_ex (\<lambda>suf. re_search_word suf low \<noteq> None) legal_suffixes then True
            else list_ex (\<lambda>k. contains low k) keywords_list))"

text \<open>
  A score is a Python float, the correctly rounded quotient of two natural numbers. The
  model keeps the exact quotient as a rational number. \<open>sum(1 for v in values if p(v))\<close>
  adds a one for every value that passes.
\<close>

definition count_ones :: "('a \<Rightarrow> bool) \<Rightarrow> 'a list \<Rightarrow> nat" where
  "count_ones p values = sum_list [1. v \<leftarrow> values, p v]"

definition score_phone :: "string list \<Rightarrow> rat" where
  "score_phone values =
     of_nat (count_ones looks_like_phone values) / of_nat (max (length values) 1)"

definition score_date :: "(string \<Rightarrow> bool) \<Rightarrow> string list \<Rightarrow> rat" where
  "score_date date_parse values =
     of_nat (count_ones (is_parsable_date date_parse) values) / of_nat (max (length values) 1)"

text \<open>The loop of \<open>score_country\<close> on the state \<open>(hits, total)\<close>, the second component written \<open>ntotal\<close>.\<close>

fun country_loop :: "string list \<Rightarrow> string set \<Rightarrow> nat \<times> nat \<Rightarrow> nat \<times> nat" where
  "country_loop [] countries_set st = st"
| "country_loop (v0 # rest) countries_set (hits, ntotal) =
     (let v = lower (strip v0) in
      if v = [] then country_loop rest countries_set (hits, ntotal)
      else country_loop rest countries_set
             (if v \<in> countries_set then hits + 1 else hits, ntotal + 1))"

definition score_country :: "string list \<Rightarrow> string set \<Rightarrow> rat" where
  "score_country values countries_set =
     (if countries_set = {} then 0
      else (case country_loop values countries_set (0, 0) of
              (hits, ntotal) \<Rightarrow> if ntotal = 0 then 0 else of_nat hits / of_nat ntotal))"

definition score_company :: "string list \<Rightarrow> string list \<Rightarrow> rat" where
  "score_company values legal_suffixes =
     of_nat (count_ones (\<lambda>v. looks_like_company v legal_suffixes) values)
       / of_nat (max (length values) 1)"

section \<open>predict.py: the classification policy\<close>

datatype label = PhoneNumber | Date | Country | CompanyName | Other

datatype error =
    SystemExit string
  | ValueError
  | KeyError string
  | TypeError
  | AttributeError

text \<open>
  Python's \<open>max(xs, key=f)\<close>: it raises \<open>ValueError\<close> on an empty sequence (here \<open>None\<close>),
  and otherwise walks the sequence and replaces the item it holds only by one whose key
  is strictly greater, so among equal keys the earliest item is returned.
\<close>

fun py_max_by :: "('a \<Rightarrow> rat) \<Rightarrow> 'a list \<Rightarrow> 'a option" where
  "py_max_by f [] = None"
| "py_max_by f (x # xs) = Some (fold (\<lambda>y best. if f best < f y then y else best) xs x)"

text \<open>
  The dictionary \<open>scores\<close> is an association list in the order in which \<open>main\<close> inserts the
  keys, which is the order in which \<open>max(scores, key=scores.get)\<close> meets them. The function
  is the part of \<open>main\<close> from the values of the column to the printed label.
\<close>

definition predict_label ::
  "(string \<Rightarrow> bool) \<Rightarrow> string set \<Rightarrow> string list \<Rightarrow> string list \<Rightarrow> error + label" where
  "predict_label date_parse countries legal_suffixes values =
     (let scores =
        [(PhoneNumber, score_phone values),
         (Date, score_date date_parse values),
         (Country, score_country values countries),
         (CompanyName, score_company values legal_suffixes)]
      in
      if 8 / 10 \<le> score_phone values then Inr PhoneNumber
      else if 8 / 10 \<le> score_date date_parse values then Inr Date
      else if 8 / 10 \<le> score_country values countries then Inr Country
      else (case py_max_by snd scores of
              None \<Rightarrow> Inl ValueError
            | Some (best_label, best_score) \<Rightarrow>
                if best_score < 3 / 10 then Inr Other else Inr best_label))"

text \<open>
  The policy in the words of the specification, on the four scores: the three overrides in
  order, then the first label in the order PhoneNumber, Date, Country, CompanyName that
  reaches the greatest score, and Other when that score is below 0.3.
\<close>

definition ClassificationPolicy :: "rat \<Rightarrow> rat \<Rightarrow> rat \<Rightarrow> rat \<Rightarrow> label" where
  "ClassificationPolicy phone date country company =
     (if 8 / 10 \<le> phone then PhoneNumber
      else if 8 / 10 \<le> date then Date
      else if 8 / 10 \<le> country then Country
      else (let m = max phone (max date (max country company)) in
            if m < 3 / 10 then Other
            else if phone = m then PhoneNumber
            else if date = m then Date
            else if country = m then Country
            else CompanyName))"

section \<open>parser.py: the parse operation\<close>

text \<open>
  A data frame is the list of its columns in order, each a name and its cells. A cell is
  the string that \<open>str\<close> gives for it, which is what both the scorers and the parsers of
  \<open>main\<close> read. \<open>df.empty\<close> holds when an axis has length zero.
\<close>

type_synonym table = "(string \<times> string list) list"

type_synonym candidate = "string \<times> label \<times> rat"

definition nrows :: "table \<Rightarrow> nat" where
  "nrows df = (case df of [] \<Rightarrow> 0 | (name, cells) # rest \<Rightarrow> length cells)"

definition df_empty :: "table \<Rightarrow> bool" where
  "df_empty df = (df = [] \<or> nrows df = 0)"

text \<open>\<open>df[col]\<close>: the cells of the column of that name, \<open>KeyError\<close> when there is none.\<close>

definition get_col :: "table \<Rightarrow> string \<Rightarrow> error + string list" where
  "get_col df col = (case map_of df col of None \<Rightarrow> Inl (KeyError col) | Some cells \<Rightarrow> Inr cells)"

text \<open>
  \<open>df[name] = cells\<close>: a column of that name is replaced where it stands; otherwise the
  new column is added after the last one.
\<close>

fun set_col :: "string \<Rightarrow> string list \<Rightarrow> table \<Rightarrow> table" where
  "set_col name cells [] = [(name, cells)]"
| "set_col name cells ((n, old) # rest) =
     (if n = name then (n, cells) # rest else (n, old) # set_col name cells rest)"

text \<open>The loop \<open>for col in df.columns\<close> that fills \<open>candidates\<close>.\<close>

fun score_columns ::
  "table \<Rightarrow> string list \<Rightarrow> string list \<Rightarrow> candidate list \<Rightarrow> error + candidate list" where
  "score_columns df legal_suffixes [] candidates = Inr candidates"
| "score_columns df legal_suffixes (col # cols) candidates =
     (case get_col df col of
        Inl e \<Rightarrow> Inl e
      | Inr values \<Rightarrow>
          score_columns df legal_suffixes cols
            (candidates @ [(col, PhoneNumber, score_phone values),
                           (col, CompanyName, score_company values legal_suffixes)]))"

text \<open>The scoring loop followed by \<open>max(candidates, key=lambda x: x[2])\<close>.\<close>

definition choose_best :: "string list \<Rightarrow> table \<Rightarrow> error + candidate" where
  "choose_best legal_suffixes df =
     (case score_columns df legal_suffixes (map fst df) [] of
        Inl e \<Rightarrow> Inl e
      | Inr candidates \<Rightarrow>
          (case py_max_by (\<lambda>x. snd (snd x)) candidates of
             None \<Rightarrow> Inl ValueError
           | Some best \<Rightarrow> Inr best))"

fun phone_loop ::
  "string list \<Rightarrow> string list \<times> string list \<Rightarrow> string list \<times> string list" where
  "phone_loop [] st = st"
| "phone_loop (v # vs) (country_col, number_col) =
     (case parse_phone_number v of
        (c, n) \<Rightarrow> phone_loop vs (country_col @ [c], number_col @ [n]))"

fun company_loop ::
  "string list \<Rightarrow> string list \<Rightarrow> string list \<times> string list \<Rightarrow> string list \<times> string list" where
  "company_loop legal_suffixes [] st = st"
| "company_loop legal_suffixes (v # vs) (name_col, legal_col) =
     (case parse_company_name v legal_suffixes of
        (name, legal) \<Rightarrow> company_loop legal_suffixes vs (name_col @ [name], legal_col @ [legal]))"

text \<open>
  \<open>main\<close> from the data frame read from the input to the data frame written to
  \<open>output.csv\<close>; \<open>Inl\<close> is the exception that ends the run.
\<close>

definition parser_main :: "string list \<Rightarrow> table \<Rightarrow> error + table" where
  "parser_main legal_suffixes df =
     (if df_empty df then Inl (SystemExit ''Input CSV is empty.'')
      else
        (case choose_best legal_suffixes df of
           Inl e \<Rightarrow> Inl e
         | Inr (best_col, best_type, best_score) \<Rightarrow>
             if best_type = PhoneNumber \<and> 0 < best_score then
               (case get_col df best_col of
                  Inl e \<Rightarrow> Inl e
                | Inr vs \<Rightarrow>
                    (case phone_loop vs ([], []) of
                       (country_col, number_col) \<Rightarrow>
                         Inr (set_col ''Number'' number_col
                                (set_col ''Country'' country_col df))))
             else if best_type = CompanyName \<and> 0 < best_score then
               (case get_col df best_col of
                  Inl e \<Rightarrow> Inl e
                | Inr vs \<Rightarrow>
                    (case company_loop legal_suffixes vs ([], []) of
                       (name_col, legal_col) \<Rightarrow>
                         Inr (set_col ''Legal'' legal_col (set_col ''Name'' name_col df))))
             else Inr df))"

section \<open>mcp_server/server.py: request dispatch\<close>

text \<open>
  A request is a decoded JSON value; a dictionary is an association list. Numbers are
  integers here, which is all the dispatch looks at.
\<close>

datatype json =
    JNull
  | JBool bool
  | JNum int
  | JStr string
  | JArr "json list"
  | JObj "(string \<times> json) list"

text \<open>\<open>d.get(key, default)\<close>.\<close>

definition dict_get :: "(string \<times> json) list \<Rightarrow> string \<Rightarrow> json \<Rightarrow> json" where
  "dict_get d key dflt = (case map_of d key of None \<Rightarrow> dflt | Some v \<Rightarrow> v)"

text \<open>The truth value of a decoded JSON value, as \<open>or\<close> tests it.\<close>

fun truthy :: "json \<Rightarrow> bool" where
  "truthy JNull = False"
| "truthy (JBool b) = b"
| "truthy (JNum n) = (n \<noteq> 0)"
| "truthy (JStr s) = (s \<noteq> [])"
| "truthy (JArr xs) = (xs \<noteq> [])"
| "truthy (JObj d) = (d \<noteq> [])"

text \<open>Lists and dictionaries have no hash: looking one up in a dictionary raises \<open>TypeError\<close>.\<close>

fun hashable :: "json \<Rightarrow> bool" where
  "hashable (JArr xs) = False"
| "hashable (JObj d) = False"
| "hashable v = True"

definition TOOLS :: "string list" where
  "TOOLS = [''list_files'', ''column_prediction'', ''parse_file'']"

text \<open>
  The look-up of a decoded value among the keys of \<open>TOOLS\<close>, as \<open>tool_name not in TOOLS\<close> and
  \<open>TOOLS[tool_name]\<close> do it: \<open>TypeError\<close> for a value without hash, otherwise the key that
  equals the value, if there is one. Only a string equals a key.
\<close>

definition tools_key :: "json \<Rightarrow> error + string option" where
  "tools_key k =
     (if \<not> hashable k then Inl TypeError
      else (case k of
              JStr name \<Rightarrow> if name \<in> set TOOLS then Inr (Some name) else Inr None
            | _ \<Rightarrow> Inr None))"

definition response_ok :: "json \<Rightarrow> json \<Rightarrow> json" where
  "response_ok req_id result = JObj [(''id'', req_id), (''ok'', JBool True), (''result'', result)]"

definition response_error :: "json \<Rightarrow> string \<Rightarrow> json" where
  "response_error req_id msg = JObj [(''id'', req_id), (''ok'', JBool False), (''error'', JStr msg)]"

text \<open>
  The tools read the file system and start processes, so what a tool does is the parameter
  \<open>run_tool\<close>: \<open>Inr\<close> the result it returns, \<open>Inl\<close> the text of the \<open>Exception\<close> it raises.
  \<open>py_str\<close> is Python's \<open>str\<close> on a decoded value. The result \<open>Inl\<close> of \<open>handle_request\<close> is
  an exception that leaves the function.
\<close>

definition handle_request ::
  "(json \<Rightarrow> string) \<Rightarrow> (string \<Rightarrow> json \<Rightarrow> string + json) \<Rightarrow> json \<Rightarrow> error + json" where
  "handle_request py_str run_tool req =
     (case req of
        JObj d \<Rightarrow>
          (let req_id = dict_get d ''id'' JNull;
               tool_name = dict_get d ''tool'' JNull;
               args0 = dict_get d ''args'' (JObj []);
               args = (if truthy args0 then args0 else JObj [])
           in
           if tool_name = JStr ''list_tools'' then
             Inr (response_ok req_id (JObj [(''tools'', JArr (map JStr TOOLS))]))
           else
             (case tools_key tool_name of
                Inl exn \<Rightarrow> Inl exn
              | Inr None \<Rightarrow>
                  Inr (response_error req_id (''Unknown tool: '' @ py_str tool_name))
              | Inr (Some name) \<Rightarrow>
                  (case run_tool name args of
                     Inr result \<Rightarrow> Inr (response_ok req_id result)
                   | Inl msg \<Rightarrow> Inr (response_error req_id msg))))
      | _ \<Rightarrow> Inl AttributeError)"

text \<open>
  The loop of \<open>main\<close> over the lines of the input. \<open>loads\<close> is \<open>json.loads\<close>, with \<open>Inl\<close> the text
  of its \<open>JSONDecodeError\<close>. The result is the responses printed, in order, and the
  exception that ended the loop, if one did.
\<close>

fun server_main ::
  "(json \<Rightarrow> string) \<Rightarrow> (string \<Rightarrow> json \<Rightarrow> string + json) \<Rightarrow> (string \<Rightarrow> string + json)
     \<Rightarrow> string list \<Rightarrow> json list \<times> error option" where
  "server_main py_str run_tool loads [] = ([], None)"
| "server_main py_str run_tool loads (line0 # rest) =
     (let line = strip line0 in
      if line = [] then server_main py_str run_tool loads rest
      else
        (case loads line of
           Inl e \<Rightarrow>
             (case server_main py_str run_tool loads rest of
                (out, r) \<Rightarrow> (response_error JNull (''Invalid JSON: '' @ e) # out, r))
         | Inr req \<Rightarrow>
             (case handle_request py_str run_tool req of
                Inl exn \<Rightarrow> ([], Some exn)
              | Inr resp \<Rightarrow>
                  (case server_main py_str run_tool loads rest of
                     (out, r) \<Rightarrow> (resp # out, r)))))"

section \<open>Properties of the string operations\<close>

lemma is_space_not_decimal: "is_space c \<Longrightarrow> \<not> is_decimal c"
  by (auto simp: is_space_def is_decimal_def)

lemma filter_dropWhile_disjoint:
  "(\<And>c. p c \<Longrightarrow> \<not> q c) \<Longrightarrow> filter q (dropWhile p s) = filter q s"
  by (induction s) auto

lemma filter_strip_by:
  assumes "\<And>c. p c \<Longrightarrow> \<not> q c"
  shows "filter q (strip_by p s) = filter q s"
proof -
  have "filter q (strip_by p s) = rev (filter q (dropWhile p (rev (dropWhile p s))))"
    by (simp add: strip_by_def rev_filter)
  also have "\<dots> = rev (filter q (rev (dropWhile p s)))"
    using assms by (simp add: filter_dropWhile_disjoint)
  also have "\<dots> = filter q (dropWhile p s)"
    by (simp add: rev_filter)
  also have "\<dots> = filter q s"
    using assms by (simp add: filter_dropWhile_disjoint)
  finally show ?thesis .
qed

lemma digits_of_strip: "digits_of (strip s) = filter is_decimal s"
  unfolding digits_of_def strip_def
  by (rule filter_strip_by) (rule is_space_not_decimal)

section \<open>The phone splitter\<close>

lemma dial_lookup_spec:
  "map_of DIAL_CODE_TO_COUNTRY k =
     (if k \<in> {''1'', ''44'', ''91''} then Some (spec_country k) else None)"
  by (simp add: DIAL_CODE_TO_COUNTRY_def spec_country_def)

lemma dial_loop_find:
  "dial_loop ls d st =
     (case find (spec_is_dial d) ls of
        Some n \<Rightarrow> (spec_country (take n d), drop n d)
      | None \<Rightarrow> st)"
  by (induction ls) (simp_all add: dial_lookup_spec spec_is_dial_def)

text \<open>
  Claim C3. For every input string the phone splitter returns what the specification
  describes: the pair of empty strings when the string has no digit; when the trimmed string
  starts with a plus sign, the country of the first dial code found among the prefixes of
  the digit string of length 3, then 2, then 1 in the table 1 to US, 44 to UK, 91 to India,
  paired with the digits after that prefix; and the empty country with all the digits when
  there is no plus sign or no prefix is in the table. In particular "+14155552671" gives
  US and 4155552671, and "5551234" gives the empty country and 5551234.
\<close>

theorem parse_phone_number_meets_spec:
  "parse_phone_number raw = ParsePhoneNumber raw
   \<and> parse_phone_number ''+14155552671'' = (''US'', ''4155552671'')
   \<and> parse_phone_number ''5551234'' = ('''', ''5551234'')"
proof -
  have general: "parse_phone_number raw = ParsePhoneNumber raw"
    by (simp add: parse_phone_number_def ParsePhoneNumber_def digits_of_strip
        dial_loop_find Let_def)
  have us: "parse_phone_number ''+14155552671'' = (''US'', ''4155552671'')"
    by code_simp
  have plain: "parse_phone_number ''5551234'' = ('''', ''5551234'')"
    by code_simp
  from general us plain show ?thesis by simp
qed

text \<open>
  Claim C10. When the trimmed input starts with a plus sign and its digits are exactly a
  dial code of the table, the phone splitter returns the country of that code with an empty
  number: the match may use up every digit.
\<close>

theorem parse_phone_number_dial_code_only:
  assumes "startswith (strip raw) ''+''"
    and "map_of DIAL_CODE_TO_COUNTRY (filter is_decimal raw) = Some country"
  shows "parse_phone_number raw = (country, '''')"
  using assms
  by (auto simp add: parse_phone_number_def digits_of_strip Let_def DIAL_CODE_TO_COUNTRY_def
      split: if_splits)

theorem parse_phone_number_dial_code_only_witness:
  "startswith (strip ''+1'') ''+''
   \<and> map_of DIAL_CODE_TO_COUNTRY (filter is_decimal ''+1'') = Some ''US''
   \<and> parse_phone_number ''+1'' = (''US'', '''')"
proof -
  have plus: "startswith (strip ''+1'') ''+''"
    by code_simp
  have dial: "map_of DIAL_CODE_TO_COUNTRY (filter is_decimal ''+1'') = Some ''US''"
    by code_simp
  from plus dial parse_phone_number_dial_code_only [OF plus dial] show ?thesis
    by simp
qed

section \<open>The company-name splitter\<close>

text \<open>
  Claim C2, as the source has it. On "Acme Widgets, Inc." with the one suffix "inc" the
  company-name splitter finds the whole-word match of the suffix at position 14 of the
  lower-cased copy and splits the original string there. The name is the part before the
  match without its surrounding spaces, commas, full stops and hyphens, "Acme Widgets". The
  legal part is the rest of the string trimmed by the same rule, and that rule takes the
  final full stop too: the result is "Inc".
\<close>

theorem parse_company_name_acme:
  "parse_company_name ''Acme Widgets, Inc.'' [''inc''] = (''Acme Widgets'', ''Inc'')
   \<and> re_search_word_dot ''inc'' (lower ''Acme Widgets, Inc.'') = Some (14, 18)
   \<and> strip_chars '' ,.-'' (take 14 ''Acme Widgets, Inc.'') = ''Acme Widgets''
   \<and> strip_chars '' ,.-'' (drop 14 ''Acme Widgets, Inc.'') = ''Inc''"
proof -
  have result: "parse_company_name ''Acme Widgets, Inc.'' [''inc''] = (''Acme Widgets'', ''Inc'')"
    by code_simp
  have found: "re_search_word_dot ''inc'' (lower ''Acme Widgets, Inc.'') = Some (14, 18)"
    by code_simp
  have name: "strip_chars '' ,.-'' (take 14 ''Acme Widgets, Inc.'') = ''Acme Widgets''"
    by code_simp
  have legal: "strip_chars '' ,.-'' (drop 14 ''Acme Widgets, Inc.'') = ''Inc''"
    by code_simp
  from result found name legal show ?thesis by simp
qed

text \<open>
  The result that claim C2 states, with the full stop kept in the legal part, is not the
  result of the splitter.
\<close>

theorem parse_company_name_acme_keeps_no_full_stop:
  "parse_company_name ''Acme Widgets, Inc.'' [''inc''] \<noteq> (''Acme Widgets'', ''Inc.'')"
  by code_simp

section \<open>The scorers\<close>

lemma count_ones_filter: "count_ones p xs = length (filter p xs)"
  by (induction xs) (simp_all add: count_ones_def)

lemma count_ones_none: "(\<forall>v\<in>set vs. \<not> p v) \<Longrightarrow> count_ones p vs = 0"
  by (simp add: count_ones_filter)

lemma ratio_nonneg: "(0::rat) \<le> of_nat k / of_nat (max n 1)"
  by simp

lemma ratio_le_one:
  assumes "k \<le> n"
  shows "(of_nat k :: rat) / of_nat (max n 1) \<le> 1"
proof -
  have "(of_nat k :: rat) \<le> of_nat (max n 1)"
    using assms by (simp add: max_def)
  moreover have "(0::rat) < of_nat (max n 1)"
    by (simp add: max_def)
  ultimately show ?thesis by (simp add: divide_le_eq_1)
qed

lemma ratio_mono:
  assumes "j \<le> k"
  shows "(of_nat j :: rat) / of_nat (max n 1) \<le> of_nat k / of_nat (max n 1)"
proof -
  have "(of_nat j :: rat) \<le> of_nat k" using assms by simp
  then show ?thesis by (rule divide_right_mono) simp
qed

lemma fraction_bounds:
  "(0::rat) \<le> of_nat (length (filter p xs)) / of_nat (max (length xs) 1)
   \<and> (of_nat (length (filter p xs)) :: rat) / of_nat (max (length xs) 1) \<le> 1"
  using ratio_nonneg [of "length (filter p xs)" "length xs"]
    ratio_le_one [OF length_filter_le, of p xs]
  by blast

lemma fraction_empty: "(of_nat (length (filter p [])) :: rat) / of_nat (max (length []) 1) = 0"
  by simp

text \<open>
  Claim C7. For every list of values, each of the phone, date and company scores lies
  between 0 and 1, is the number of values that satisfy the scorer's predicate divided by
  the greater of the length of the list and 1, and is 0 on the empty list (the divisor is
  then 1). For two lists of the same length, the list with at least as many matching values
  has at least as great a score.
\<close>

theorem scorers_are_fractions:
  "(0 \<le> score_phone vs \<and> score_phone vs \<le> 1
      \<and> score_phone vs = of_nat (length (filter looks_like_phone vs)) / of_nat (max (length vs) 1)
      \<and> score_phone [] = 0)
   \<and> (0 \<le> score_date date_parse vs \<and> score_date date_parse vs \<le> 1
      \<and> score_date date_parse vs =
          of_nat (length (filter (is_parsable_date date_parse) vs)) / of_nat (max (length vs) 1)
      \<and> score_date date_parse [] = 0)
   \<and> (0 \<le> score_company vs sufs \<and> score_company vs sufs \<le> 1
      \<and> score_company vs sufs =
          of_nat (length (filter (\<lambda>v. looks_like_company v sufs) vs)) / of_nat (max (length vs) 1)
      \<and> score_company [] sufs = 0)
   \<and> (length vs = length ws \<longrightarrow>
        (length (filter looks_like_phone vs) \<le> length (filter looks_like_phone ws)
           \<longrightarrow> score_phone vs \<le> score_phone ws)
        \<and> (length (filter (is_parsable_date date_parse) vs)
              \<le> length (filter (is_parsable_date date_parse) ws)
           \<longrightarrow> score_date date_parse vs \<le> score_date date_parse ws)
        \<and> (length (filter (\<lambda>v. looks_like_company v sufs) vs)
              \<le> length (filter (\<lambda>v. looks_like_company v sufs) ws)
           \<longrightarrow> score_company vs sufs \<le> score_company ws sufs))"
proof -
  have phone: "0 \<le> score_phone vs \<and> score_phone vs \<le> 1
      \<and> score_phone vs = of_nat (length (filter looks_like_phone vs)) / of_nat (max (length vs) 1)
      \<and> score_phone [] = 0"
    unfolding score_phone_def count_ones_filter
    using fraction_bounds [of _ vs] fraction_empty by blast
  have date: "0 \<le> score_date date_parse vs \<and> score_date date_parse vs \<le> 1
      \<and> score_date date_parse vs =
          of_nat (length (filter (is_parsable_date date_parse) vs)) / of_nat (max (length vs) 1)
      \<and> score_date date_parse [] = 0"
    unfolding score_date_def count_ones_filter
    using fraction_bounds [of _ vs] fraction_empty by blast
  have company: "0 \<le> score_company vs sufs \<and> score_company vs sufs \<le> 1
      \<and> score_company vs sufs =
          of_nat (length (filter (\<lambda>v. looks_like_company v sufs) vs)) / of_nat (max (length vs) 1)
      \<and> score_company [] sufs = 0"
    unfolding score_company_def count_ones_filter
    using fraction_bounds [of _ vs] fraction_empty by blast
  have mono: "(length (filter looks_like_phone vs) \<le> length (filter looks_like_phone ws)
           \<longrightarrow> score_phone vs \<le> score_phone ws)
        \<and> (length (filter (is_parsable_date date_parse) vs)
              \<le> length (filter (is_parsable_date date_parse) ws)
           \<longrightarrow> score_date date_parse vs \<le> score_date date_parse ws)
        \<and> (length (filter (\<lambda>v. looks_like_company v sufs) vs)
              \<le> length (filter (\<lambda>v. looks_like_company v sufs) ws)
           \<longrightarrow> score_company vs sufs \<le> score_company ws sufs)"
    if same: "length vs = length ws"
    unfolding score_phone_def score_date_def score_company_def count_ones_filter same
    using ratio_mono by blast
  from phone date company mono show ?thesis by blast
qed

theorem scorers_are_fractions_witness:
  "length [''5551234'', ''Acme Inc''] = length [''5551234'', ''5559876'']
   \<and> length (filter looks_like_phone [''5551234'', ''Acme Inc''])
        \<le> length (filter looks_like_phone [''5551234'', ''5559876''])
   \<and> score_phone [''5551234'', ''Acme Inc''] \<le> score_phone [''5551234'', ''5559876'']
   \<and> length (filter (is_parsable_date (\<lambda>s. False)) [''5551234'', ''Acme Inc''])
        \<le> length (filter (is_parsable_date (\<lambda>s. False)) [''5551234'', ''5559876''])
   \<and> score_date (\<lambda>s. False) [''5551234'', ''Acme Inc'']
        \<le> score_date (\<lambda>s. False) [''5551234'', ''5559876'']
   \<and> length (filter (\<lambda>v. looks_like_company v []) [''5551234'', ''5559876''])
        \<le> length (filter (\<lambda>v. looks_like_company v []) [''5551234'', ''Acme Inc''])
   \<and> score_company [''5551234'', ''5559876''] [] \<le> score_company [''5551234'', ''Acme Inc''] []"
proof -
  have len: "length [''5551234'', ''Acme Inc''] = length [''5551234'', ''5559876'']"
    by simp
  have len': "length [''5551234'', ''5559876''] = length [''5551234'', ''Acme Inc'']"
    by simp
  have p: "length (filter looks_like_phone [''5551234'', ''Acme Inc''])
        \<le> length (filter looks_like_phone [''5551234'', ''5559876''])"
    by code_simp
  have d: "length (filter (is_parsable_date (\<lambda>s. False)) [''5551234'', ''Acme Inc''])
        \<le> length (filter (is_parsable_date (\<lambda>s. False)) [''5551234'', ''5559876''])"
    by (simp add: is_parsable_date_def)
  have c: "length (filter (\<lambda>v. looks_like_company v []) [''5551234'', ''5559876''])
        \<le> length (filter (\<lambda>v. looks_like_company v []) [''5551234'', ''Acme Inc''])"
    by code_simp
  from len len' p d c
    scorers_are_fractions [of "[''5551234'', ''Acme Inc'']" "\<lambda>s. False" "[]"
      "[''5551234'', ''5559876'']"]
    scorers_are_fractions [of "[''5551234'', ''5559876'']" "\<lambda>s. False" "[]"
      "[''5551234'', ''Acme Inc'']"]
  show ?thesis by blast
qed

lemma country_loop_counts:
  "country_loop vs cs (h, t) =
     (h + length (filter (\<lambda>v. v \<in> cs) (filter (\<lambda>v. v \<noteq> []) (map (\<lambda>v. lower (strip v)) vs))),
      t + length (filter (\<lambda>v. v \<noteq> []) (map (\<lambda>v. lower (strip v)) vs)))"
  by (induction vs arbitrary: h t) (simp_all add: Let_def)

text \<open>
  Claim C6. The country score is 0 whenever the country set is empty. Otherwise every value
  is trimmed and lower-cased, the values that are then empty are left out altogether, and
  the score is the number of the remaining values that are in the country set divided by
  the number of remaining values, or 0 when none remains.
\<close>

theorem score_country_fraction_of_nonempty:
  "score_country values {} = 0
   \<and> (countries \<noteq> {} \<longrightarrow>
        score_country values countries =
          (let norm = filter (\<lambda>v. v \<noteq> []) (map (\<lambda>v. lower (strip v)) values) in
           if norm = [] then 0
           else of_nat (length (filter (\<lambda>v. v \<in> countries) norm)) / of_nat (length norm)))"
proof -
  define norm where "norm = filter (\<lambda>v. v \<noteq> []) (map (\<lambda>v. lower (strip v)) values)"
  have loop: "country_loop values countries (0, 0) =
      (length (filter (\<lambda>v. v \<in> countries) norm), length norm)"
    unfolding norm_def by (simp only: country_loop_counts add_0)
  have empty: "score_country values {} = 0"
    by (simp add: score_country_def)
  have nonempty: "score_country values countries =
      (if norm = [] then 0
       else of_nat (length (filter (\<lambda>v. v \<in> countries) norm)) / of_nat (length norm))"
    if "countries \<noteq> {}"
    using that by (simp add: score_country_def loop)
  from empty nonempty show ?thesis
    unfolding norm_def Let_def by blast
qed

theorem score_country_fraction_of_nonempty_witness:
  "{''india'', ''france''} \<noteq> ({} :: string set)
   \<and> score_country [''India'', '' france '', ''Atlantis'', ''  ''] {''india'', ''france''} = 2 / 3"
proof -
  have ne: "{''india'', ''france''} \<noteq> ({} :: string set)" by simp
  have norm:
    "filter (\<lambda>v. v \<noteq> []) (map (\<lambda>v. lower (strip v)) [''India'', '' france '', ''Atlantis'', ''  ''])
      = [''india'', ''france'', ''atlantis'']"
    by code_simp
  from ne norm
    score_country_fraction_of_nonempty [of "[''India'', '' france '', ''Atlantis'', ''  '']"
      "{''india'', ''france''}"]
  show ?thesis by (simp add: Let_def)
qed

section \<open>The classification policy\<close>

lemma py_max_by_four:
  "py_max_by snd [(a, p), (b, q), (c, r), (d, s)] =
     Some (let m = max p (max q (max r s)) in
           if p = m then (a, p) else if q = m then (b, q) else if r = m then (c, r) else (d, s))"
  by (auto simp add: Let_def max_def)

text \<open>
  Claim C1. For every list of values, country set and legal-suffix list (and every answer
  of the date library), the classification returns a label, and it is the label of the
  policy of the specification on the four scores: PhoneNumber when the phone score is at
  least 0.8; otherwise Date when the date score is at least 0.8; otherwise Country when
  the country score is at least 0.8; otherwise the label whose score is the greatest of
  the four, the first of PhoneNumber, Date, Country, CompanyName among equal scores, and
  Other instead when that greatest score is below 0.3. Scores are exact quotients here;
  the floating-point quotients of the source compare in the same way with each other and
  with 0.8 and 0.3 for every column of fewer than \<open>2 ^ 26\<close> values.
\<close>

theorem predict_label_follows_policy:
  "predict_label date_parse countries legal_suffixes values =
     Inr (ClassificationPolicy (score_phone values) (score_date date_parse values)
            (score_country values countries) (score_company values legal_suffixes))"
  unfolding predict_label_def ClassificationPolicy_def py_max_by_four Let_def
  by (auto simp add: max_def)

section \<open>The parse operation\<close>

text \<open>
  Claim C8. On every table with zero rows the parse operation ends with the error
  "Input CSV is empty." and writes no output table.
\<close>

theorem parser_main_rejects_empty_table:
  "nrows df = 0 \<Longrightarrow> parser_main sufs df = Inl (SystemExit ''Input CSV is empty.'')"
  by (simp add: parser_main_def df_empty_def)

theorem parser_main_rejects_empty_table_witness:
  "nrows [(''id'', []), (''phone'', [])] = 0
   \<and> parser_main [''inc''] [(''id'', []), (''phone'', [])] = Inl (SystemExit ''Input CSV is empty.'')"
proof -
  have zero: "nrows [(''id'', []), (''phone'', [])] = 0"
    by (simp add: nrows_def)
  from zero parser_main_rejects_empty_table [OF zero, of "[''inc'']"] show ?thesis
    by simp
qed

lemma looks_like_phone_empty: "\<not> looks_like_phone ''''"
  by (simp add: looks_like_phone_def strip_def strip_by_def)

lemma looks_like_company_empty: "\<not> looks_like_company '''' sufs"
  by (simp add: looks_like_company_def strip_def strip_by_def)

lemma score_phone_all_empty:
  assumes "\<forall>v\<in>set vs. v = ''''"
  shows "score_phone vs = 0"
proof -
  from assms have "\<forall>v\<in>set vs. \<not> looks_like_phone v"
    using looks_like_phone_empty by auto
  then have "count_ones looks_like_phone vs = 0" by (rule count_ones_none)
  then show ?thesis by (simp add: score_phone_def)
qed

lemma score_company_all_empty:
  assumes "\<forall>v\<in>set vs. v = ''''"
  shows "score_company vs sufs = 0"
proof -
  from assms have "\<forall>v\<in>set vs. \<not> looks_like_company v sufs"
    using looks_like_company_empty by auto
  then have "count_ones (\<lambda>v. looks_like_company v sufs) vs = 0" by (rule count_ones_none)
  then show ?thesis by (simp add: score_company_def)
qed

lemma get_col_member:
  assumes "col \<in> fst ` set df"
  shows "\<exists>cells. get_col df col = Inr cells \<and> (col, cells) \<in> set df"
proof -
  from assms obtain cells where found: "map_of df col = Some cells"
    by (cases "map_of df col") (auto simp: map_of_eq_None_iff)
  then have "(col, cells) \<in> set df" by (rule map_of_SomeD)
  with found show ?thesis by (simp add: get_col_def)
qed

lemma score_columns_result:
  assumes "set cols \<subseteq> fst ` set df"
  shows "\<exists>new. score_columns df sufs cols acc = Inr (acc @ new)
           \<and> (cols \<noteq> [] \<longrightarrow> new \<noteq> [])
           \<and> (\<forall>c\<in>set new. \<exists>cells. (fst c, cells) \<in> set df \<and> get_col df (fst c) = Inr cells
                 \<and> (snd c = (PhoneNumber, score_phone cells)
                      \<or> snd c = (CompanyName, score_company cells sufs)))"
  using assms
proof (induction cols arbitrary: acc)
  case Nil
  then show ?case by simp
next
  case (Cons col cols)
  from Cons.prems have "col \<in> fst ` set df" by simp
  then obtain cells where cells: "get_col df col = Inr cells" "(col, cells) \<in> set df"
    using get_col_member by blast
  let ?two = "[(col, PhoneNumber, score_phone cells), (col, CompanyName, score_company cells sufs)]"
  from Cons.prems have "set cols \<subseteq> fst ` set df" by simp
  from Cons.IH [OF this, of "acc @ ?two"] obtain new where
    new: "score_columns df sufs cols (acc @ ?two) = Inr ((acc @ ?two) @ new)"
      "\<forall>c\<in>set new. \<exists>cells. (fst c, cells) \<in> set df \<and> get_col df (fst c) = Inr cells
                 \<and> (snd c = (PhoneNumber, score_phone cells)
                      \<or> snd c = (CompanyName, score_company cells sufs))"
    by blast
  have "score_columns df sufs (col # cols) acc = Inr (acc @ (?two @ new))"
    using cells(1) new(1) by simp
  moreover have "\<forall>c\<in>set (?two @ new). \<exists>cells. (fst c, cells) \<in> set df \<and> get_col df (fst c) = Inr cells
                 \<and> (snd c = (PhoneNumber, score_phone cells)
                      \<or> snd c = (CompanyName, score_company cells sufs))"
    using cells new(2) by auto
  ultimately show ?case by blast
qed

lemma fold_max_mem:
  "fold (\<lambda>y best. if f best < f y then y else best) xs x \<in> set (x # xs)"
  by (induction xs arbitrary: x) auto

lemma py_max_by_mem:
  assumes "py_max_by f xs = Some x"
  shows "x \<in> set xs"
proof (cases xs)
  case Nil
  with assms show ?thesis by simp
next
  case (Cons a rest)
  with assms have "x = fold (\<lambda>y best. if f best < f y then y else best) rest a" by simp
  with fold_max_mem [of f rest a] Cons show ?thesis by simp
qed

lemma py_max_by_some: "xs \<noteq> [] \<Longrightarrow> \<exists>x. py_max_by f xs = Some x"
  by (cases xs) auto

lemma choose_best_total:
  assumes "df \<noteq> []"
  shows "\<exists>col ty s cells. choose_best sufs df = Inr (col, ty, s)
           \<and> (col, cells) \<in> set df \<and> get_col df col = Inr cells
           \<and> ((ty, s) = (PhoneNumber, score_phone cells)
                \<or> (ty, s) = (CompanyName, score_company cells sufs))"
proof -
  have "set (map fst df) \<subseteq> fst ` set df" by simp
  from score_columns_result [OF this, of sufs "[]"] obtain cands where
    cands: "score_columns df sufs (map fst df) [] = Inr cands" "cands \<noteq> []"
      "\<forall>c\<in>set cands. \<exists>cells. (fst c, cells) \<in> set df \<and> get_col df (fst c) = Inr cells
                 \<and> (snd c = (PhoneNumber, score_phone cells)
                      \<or> snd c = (CompanyName, score_company cells sufs))"
    using assms by auto
  from cands(2) obtain best where best: "py_max_by (\<lambda>x. snd (snd x)) cands = Some best"
    using py_max_by_some by blast
  then have "best \<in> set cands" by (rule py_max_by_mem)
  with cands(3) obtain cells where
    "(fst best, cells) \<in> set df" "get_col df (fst best) = Inr cells"
    "snd best = (PhoneNumber, score_phone cells) \<or> snd best = (CompanyName, score_company cells sufs)"
    by blast
  moreover have "choose_best sufs df = Inr best"
    using cands(1) best by (simp add: choose_best_def)
  ultimately show ?thesis
    by (cases best) auto
qed

lemma phone_loop_map:
  "phone_loop vs (a, b) =
     (a @ map (\<lambda>v. fst (parse_phone_number v)) vs, b @ map (\<lambda>v. snd (parse_phone_number v)) vs)"
  by (induction vs arbitrary: a b) (simp_all split: prod.splits)

lemma company_loop_map:
  "company_loop sufs vs (a, b) =
     (a @ map (\<lambda>v. fst (parse_company_name v sufs)) vs,
      b @ map (\<lambda>v. snd (parse_company_name v sufs)) vs)"
  by (induction vs arbitrary: a b) (simp_all split: prod.splits)

lemma set_col_append: "name \<notin> fst ` set df \<Longrightarrow> set_col name cells df = df @ [(name, cells)]"
  by (induction df) auto


text \<open>
  Claim C5. On every table that has a row, when the greatest of the phone and company
  scores of all the columns is 0, the parse operation parses nothing and writes the input
  table as it is, with no new column. In particular, on a table whose cells are all empty
  strings the selector's winning score is 0 and the output is the input table.
\<close>

theorem parse_unchanged_when_best_score_zero:
  assumes "\<not> df_empty df"
  shows "(Max (\<Union>(name, cells)\<in>set df. {score_phone cells, score_company cells sufs}) = 0
            \<longrightarrow> parser_main sufs df = Inr df)
       \<and> ((\<forall>(name, cells)\<in>set df. \<forall>v\<in>set cells. v = '''')
            \<longrightarrow> (\<exists>col ty. choose_best sufs df = Inr (col, ty, 0)) \<and> parser_main sufs df = Inr df)"
proof -
  from assms have ne: "df \<noteq> []" by (simp add: df_empty_def)
  from choose_best_total [OF ne, of sufs] obtain col ty s cells where
    best: "choose_best sufs df = Inr (col, ty, s)" and
    mem: "(col, cells) \<in> set df" and
    score: "(ty, s) = (PhoneNumber, score_phone cells) \<or> (ty, s) = (CompanyName, score_company cells sufs)"
    by blast
  let ?scores = "\<Union>(name, cells)\<in>set df. {score_phone cells, score_company cells sufs}"
  have fin: "finite ?scores" by auto
  from mem score have "s \<in> ?scores" by auto
  with fin have le: "s \<le> Max ?scores" by (rule Max_ge)
  have unchanged: "parser_main sufs df = Inr df" if "s \<le> 0"
    using assms best that by (simp add: parser_main_def)
  have first: "parser_main sufs df = Inr df" if "Max ?scores = 0"
    using unchanged le that by simp
  have second: "(\<exists>col ty. choose_best sufs df = Inr (col, ty, 0)) \<and> parser_main sufs df = Inr df"
    if blank: "\<forall>(name, cells)\<in>set df. \<forall>v\<in>set cells. v = ''''"
  proof -
    from blank mem have "\<forall>v\<in>set cells. v = ''''" by auto
    then have "score_phone cells = 0" "score_company cells sufs = 0"
      by (rule score_phone_all_empty, rule score_company_all_empty)
    with score have "s = 0" by auto
    with best unchanged show ?thesis by auto
  qed
  from first second show ?thesis by blast
qed

theorem parse_unchanged_when_best_score_zero_witness:
  "\<not> df_empty [(''id'', [''7'']), (''note'', [''hello''])]
   \<and> Max (\<Union>(name, cells)\<in>set [(''id'', [''7'']), (''note'', [''hello''])].
            {score_phone cells, score_company cells []}) = 0
   \<and> parser_main [] [(''id'', [''7'']), (''note'', [''hello''])]
        = Inr [(''id'', [''7'']), (''note'', [''hello''])]
   \<and> \<not> df_empty [(''a'', ['''']), (''b'', [''''])]
   \<and> parser_main [] [(''a'', ['''']), (''b'', [''''])] = Inr [(''a'', ['''']), (''b'', [''''])]"
proof -
  have ne1: "\<not> df_empty [(''id'', [''7'']), (''note'', [''hello''])]"
    by (simp add: df_empty_def nrows_def)
  have s1: "score_phone [''7''] = 0" "score_company [''7''] [] = 0"
    "score_phone [''hello''] = 0" "score_company [''hello''] [] = 0"
    by code_simp+
  have max1: "Max (\<Union>(name, cells)\<in>set [(''id'', [''7'']), (''note'', [''hello''])].
            {score_phone cells, score_company cells []}) = 0"
    by (simp add: s1)
  have ne2: "\<not> df_empty [(''a'', ['''']), (''b'', [''''])]"
    by (simp add: df_empty_def nrows_def)
  have blank: "\<forall>(name, cells)\<in>set [(''a'', ['''']), (''b'', [''''])]. \<forall>v\<in>set cells. v = ''''"
    by simp
  have out1: "parser_main [] [(''id'', [''7'']), (''note'', [''hello''])]
        = Inr [(''id'', [''7'']), (''note'', [''hello''])]"
    by (rule parse_unchanged_when_best_score_zero [OF ne1, THEN conjunct1, THEN mp, OF max1])
  have out2: "parser_main [] [(''a'', ['''']), (''b'', [''''])] = Inr [(''a'', ['''']), (''b'', [''''])]"
    by (rule parse_unchanged_when_best_score_zero [OF ne2, THEN conjunct2, THEN mp, OF blank, THEN conjunct2])
  show ?thesis
    by (intro conjI, rule ne1, rule max1, rule out1, rule ne2, rule out2)
qed

text \<open>
  Claim C4, as the source has it. On every table that has a row and on which the selector
  picks a winner with a positive score, the winner's type is PhoneNumber or CompanyName and
  its column exists. When no column of the input is already called Country or Number
  (for a PhoneNumber winner), or Name or Legal (for a CompanyName winner), the output is
  the input's columns, unchanged and in their order, followed by exactly two new columns:
  Country then Number, or Name then Legal, holding the two parts that the parser of that
  type gives for each value of the winning column.
\<close>

theorem parse_appends_two_columns:
  assumes "\<not> df_empty df" and "choose_best sufs df = Inr (col, ty, s)" and "0 < s"
  shows "\<exists>vs. get_col df col = Inr vs \<and> (ty = PhoneNumber \<or> ty = CompanyName)
     \<and> (ty = PhoneNumber \<longrightarrow> ''Country'' \<notin> fst ` set df \<longrightarrow> ''Number'' \<notin> fst ` set df \<longrightarrow>
          parser_main sufs df =
            Inr (df @ [(''Country'', map (\<lambda>v. fst (parse_phone_number v)) vs),
                       (''Number'', map (\<lambda>v. snd (parse_phone_number v)) vs)]))
     \<and> (ty = CompanyName \<longrightarrow> ''Name'' \<notin> fst ` set df \<longrightarrow> ''Legal'' \<notin> fst ` set df \<longrightarrow>
          parser_main sufs df =
            Inr (df @ [(''Name'', map (\<lambda>v. fst (parse_company_name v sufs)) vs),
                       (''Legal'', map (\<lambda>v. snd (parse_company_name v sufs)) vs)]))"
proof -
  from assms(1) have ne: "df \<noteq> []" by (simp add: df_empty_def)
  from choose_best_total [OF ne, of sufs] assms(2) obtain vs where
    col: "get_col df col = Inr vs" and
    ty: "ty = PhoneNumber \<or> ty = CompanyName"
    by auto
  have phone: "parser_main sufs df =
            Inr (df @ [(''Country'', map (\<lambda>v. fst (parse_phone_number v)) vs),
                       (''Number'', map (\<lambda>v. snd (parse_phone_number v)) vs)])"
    if "ty = PhoneNumber" and c: "''Country'' \<notin> fst ` set df" and n: "''Number'' \<notin> fst ` set df"
  proof -
    have "''Number'' \<notin> fst ` set (df @ [(''Country'', map (\<lambda>v. fst (parse_phone_number v)) vs)])"
      using n by simp
    then show ?thesis
      using assms that(1) col c
      by (simp add: parser_main_def phone_loop_map set_col_append)
  qed
  have company: "parser_main sufs df =
            Inr (df @ [(''Name'', map (\<lambda>v. fst (parse_company_name v sufs)) vs),
                       (''Legal'', map (\<lambda>v. snd (parse_company_name v sufs)) vs)])"
    if "ty = CompanyName" and c: "''Name'' \<notin> fst ` set df" and n: "''Legal'' \<notin> fst ` set df"
  proof -
    have "''Legal'' \<notin> fst ` set (df @ [(''Name'', map (\<lambda>v. fst (parse_company_name v sufs)) vs)])"
      using n by simp
    then show ?thesis
      using assms that(1) col c
      by (simp add: parser_main_def company_loop_map set_col_append)
  qed
  from col ty phone company show ?thesis by blast
qed

theorem parse_appends_two_columns_witness:
  "\<not> df_empty [(''id'', [''1'']), (''phone'', [''+14155552671''])]
   \<and> choose_best [] [(''id'', [''1'']), (''phone'', [''+14155552671''])] = Inr (''phone'', PhoneNumber, 1)
   \<and> ''Country'' \<notin> fst ` set [(''id'', [''1'']), (''phone'', [''+14155552671''])]
   \<and> ''Number'' \<notin> fst ` set [(''id'', [''1'']), (''phone'', [''+14155552671''])]
   \<and> parser_main [] [(''id'', [''1'']), (''phone'', [''+14155552671''])]
        = Inr [(''id'', [''1'']), (''phone'', [''+14155552671'']),
               (''Country'', [''US'']), (''Number'', [''4155552671''])]
   \<and> \<not> df_empty [(''id'', [''1'']), (''firm'', [''Acme Widgets, Inc.''])]
   \<and> choose_best [''inc''] [(''id'', [''1'']), (''firm'', [''Acme Widgets, Inc.''])]
        = Inr (''firm'', CompanyName, 1)
   \<and> ''Name'' \<notin> fst ` set [(''id'', [''1'']), (''firm'', [''Acme Widgets, Inc.''])]
   \<and> ''Legal'' \<notin> fst ` set [(''id'', [''1'']), (''firm'', [''Acme Widgets, Inc.''])]
   \<and> parser_main [''inc''] [(''id'', [''1'']), (''firm'', [''Acme Widgets, Inc.''])]
        = Inr [(''id'', [''1'']), (''firm'', [''Acme Widgets, Inc.'']),
               (''Name'', [''Acme Widgets'']), (''Legal'', [''Inc''])]"
proof -
  let ?P = "[(''id'', [''1'']), (''phone'', [''+14155552671''])]"
  let ?C = "[(''id'', [''1'']), (''firm'', [''Acme Widgets, Inc.''])]"
  have pos: "(0::rat) < 1" by simp
  have neP: "\<not> df_empty ?P" by (simp add: df_empty_def nrows_def)
  have bestP: "choose_best [] ?P = Inr (''phone'', PhoneNumber, 1)" by code_simp
  have namesP: "''Country'' \<notin> fst ` set ?P" "''Number'' \<notin> fst ` set ?P" by simp_all
  have colP: "get_col ?P ''phone'' = Inr [''+14155552671'']" by code_simp
  have parseP: "parse_phone_number ''+14155552671'' = (''US'', ''4155552671'')" by code_simp
  have neC: "\<not> df_empty ?C" by (simp add: df_empty_def nrows_def)
  have bestC: "choose_best [''inc''] ?C = Inr (''firm'', CompanyName, 1)" by code_simp
  have namesC: "''Name'' \<notin> fst ` set ?C" "''Legal'' \<notin> fst ` set ?C" by simp_all
  have colC: "get_col ?C ''firm'' = Inr [''Acme Widgets, Inc.'']" by code_simp
  have parseC: "parse_company_name ''Acme Widgets, Inc.'' [''inc''] = (''Acme Widgets'', ''Inc'')"
    by code_simp
  have outP: "parser_main [] ?P
        = Inr [(''id'', [''1'']), (''phone'', [''+14155552671'']),
               (''Country'', [''US'']), (''Number'', [''4155552671''])]"
    using parse_appends_two_columns [OF neP bestP pos] namesP by (simp add: colP parseP)
  have outC: "parser_main [''inc''] ?C
        = Inr [(''id'', [''1'']), (''firm'', [''Acme Widgets, Inc.'']),
               (''Name'', [''Acme Widgets'']), (''Legal'', [''Inc''])]"
    using parse_appends_two_columns [OF neC bestC pos] namesC by (simp add: colC parseC)
  show ?thesis
    by (intro conjI, rule neP, rule bestP, rule namesP(1), rule namesP(2), rule outP,
        rule neC, rule bestC, rule namesC(1), rule namesC(2), rule outC)
qed

text \<open>
  Claim C4 as stated does not hold for every table: the assignment of a derived column
  replaces an input column of the same name. With an input column called Country next to a
  phone column, the output has the input's Country cells replaced by the parsed countries
  and only Number added, so it is not the input's columns followed by two new ones.
\<close>

theorem parse_overwrites_existing_country_column:
  "\<not> df_empty [(''Country'', [''India'']), (''phone'', [''+14155552671''])]
   \<and> choose_best [] [(''Country'', [''India'']), (''phone'', [''+14155552671''])]
        = Inr (''phone'', PhoneNumber, 1)
   \<and> parser_main [] [(''Country'', [''India'']), (''phone'', [''+14155552671''])]
        = Inr [(''Country'', [''US'']), (''phone'', [''+14155552671'']), (''Number'', [''4155552671''])]
   \<and> parser_main [] [(''Country'', [''India'']), (''phone'', [''+14155552671''])]
        \<noteq> Inr ([(''Country'', [''India'']), (''phone'', [''+14155552671''])]
                 @ [(''Country'', [''US'']), (''Number'', [''4155552671''])])"
proof -
  let ?T = "[(''Country'', [''India'']), (''phone'', [''+14155552671''])]"
  have ne: "\<not> df_empty ?T" by (simp add: df_empty_def nrows_def)
  have best: "choose_best [] ?T = Inr (''phone'', PhoneNumber, 1)" by code_simp
  have out: "parser_main [] ?T
        = Inr [(''Country'', [''US'']), (''phone'', [''+14155552671'']), (''Number'', [''4155552671''])]"
    by code_simp
  from ne best out show ?thesis by simp
qed

section \<open>Request dispatch\<close>

text \<open>
  A request object whose tool field has a hash is always answered: the exception of a tool
  and an unknown name both become a response.
\<close>

lemma handle_request_answers_hashable_tool:
  assumes "hashable (dict_get d ''tool'' JNull)"
  shows "\<exists>resp. handle_request py_str run_tool (JObj d) = Inr resp"
  using assms
  by (simp add: handle_request_def tools_key_def Let_def split: json.splits sum.splits)

text \<open>
  Claim C9 says that \<open>handle_request\<close> returns a response for every request object. The
  request object with the fields id 1 and tool \<open>[]\<close> is a counter-instance in the source:
  the membership test of the tool name in \<open>TOOLS\<close> raises \<open>TypeError\<close> for a list, outside the
  \<open>try\<close> block, so the exception leaves \<open>handle_request\<close>, and the loop of \<open>main\<close> ends with
  it on a line that decodes to that request, whatever the tools and \<open>str\<close> do.
\<close>

theorem handle_request_raises_on_unhashable_tool:
  "handle_request py_str run_tool (JObj [(''id'', JNum 1), (''tool'', JArr [])]) = Inl TypeError
   \<and> server_main py_str run_tool (\<lambda>line. Inr (JObj [(''id'', JNum 1), (''tool'', JArr [])]))
        [''{...}''] = ([], Some TypeError)"
proof -
  have req: "handle_request py_str run_tool (JObj [(''id'', JNum 1), (''tool'', JArr [])]) = Inl TypeError"
    by (simp add: handle_request_def dict_get_def tools_key_def)
  have line: "strip ''{...}'' \<noteq> []"
    by code_simp
  from req line show ?thesis by (simp add: Let_def)
qed

end
